theory Spec2Isabelle
  imports Complex_Main
begin

section \<open>Python values used by the recommendation engine\<close>

text \<open>
  Python strings are modelled as HOL strings whose characters are the code points below
  256; floats are modelled as real numbers (only their order and exact arithmetic is used);
  a raised exception is the left injection of a sum, carrying \<open>str(e)\<close>.
\<close>

type_synonym 'a result = "string + 'a"

definition py_isspace :: "char \<Rightarrow> bool" where
  \<comment> \<open>the characters \<open>str.strip()\<close> removes, among the code points below 256\<close>
  "py_isspace c =
     (let n = (of_char c :: nat)
      in (9 \<le> n \<and> n \<le> 13) \<or> (28 \<le> n \<and> n \<le> 32) \<or> n = 133 \<or> n = 160)"

definition py_strip :: "string \<Rightarrow> string" where
  "py_strip s = rev (dropWhile py_isspace (rev (dropWhile py_isspace s)))"

fun py_split :: "char \<Rightarrow> string \<Rightarrow> string list" where
  \<comment> \<open>\<open>s.split(sep)\<close> for a separator of one character\<close>
  "py_split sep [] = [[]]"
| "py_split sep (c # cs) =
     (if c = sep then [] # py_split sep cs
      else (case py_split sep cs of
              w # ws \<Rightarrow> (c # w) # ws
            | [] \<Rightarrow> [[c]]))"

definition py_lower_char :: "char \<Rightarrow> char" where
  \<comment> \<open>ASCII letters are lowered; \<open>lower()\<close> is only compared with \<open>nan\<close> here, and no
      code point outside ASCII lowers to \<open>n\<close> or \<open>a\<close>\<close>
  "py_lower_char c =
     (case map_of (zip ''ABCDEFGHIJKLMNOPQRSTUVWXYZ'' ''abcdefghijklmnopqrstuvwxyz'') c of
        Some l \<Rightarrow> l
      | None \<Rightarrow> c)"

definition py_lower :: "string \<Rightarrow> string" where
  "py_lower s = map py_lower_char s"

definition digit_char :: "nat \<Rightarrow> char" where
  "digit_char d = ''0123456789'' ! d"

fun str_nat :: "nat \<Rightarrow> string" where
  \<comment> \<open>\<open>str(n)\<close> for a non-negative integer\<close>
  "str_nat n = (if n < 10 then [digit_char n] else str_nat (n div 10) @ [digit_char (n mod 10)])"

declare str_nat.simps [simp del]

definition py_round :: "real \<Rightarrow> int" where
  \<comment> \<open>rounding to the nearest integer, ties to the even one, as Python's \<open>round\<close>\<close>
  "py_round x =
     (let f = \<lfloor>x\<rfloor>; d = x - of_int f
      in if d < 1 / 2 then f
         else if 1 / 2 < d then f + 1
         else if even f then f else f + 1)"

definition py_round_ndigits3 :: "real \<Rightarrow> real" where
  \<comment> \<open>\<open>round(x, 3)\<close>\<close>
  "py_round_ndigits3 x = of_int (py_round (x * 1000)) / 1000"

definition py_slice_to :: "int \<Rightarrow> 'a list \<Rightarrow> 'a list" where
  \<comment> \<open>\<open>xs[:n]\<close>: a negative \<open>n\<close> counts from the end\<close>
  "py_slice_to n xs =
     (if 0 \<le> n then take (nat n) xs else take (nat (int (length xs) + n)) xs)"

text \<open>
  A Python \<open>dict\<close> keeps its keys in insertion order; assigning to an existing key keeps
  the key's position. It is an association list with distinct keys.
\<close>

definition dict_get :: "('k \<times> 'v) list \<Rightarrow> 'k \<Rightarrow> 'v \<Rightarrow> 'v" where
  "dict_get d k dflt = (case map_of d k of Some v \<Rightarrow> v | None \<Rightarrow> dflt)"

fun dict_set :: "('k \<times> 'v) list \<Rightarrow> 'k \<Rightarrow> 'v \<Rightarrow> ('k \<times> 'v) list" where
  "dict_set [] k v = [(k, v)]"
| "dict_set ((k', v') # d) k v =
     (if k' = k then (k', v) # d else (k', v') # dict_set d k v)"

section \<open>Data model\<close>

text \<open>A row of the table \<open>kubota_parts\<close>, with the columns the search reads.\<close>

record kubota_part =
  kp_claimid :: string
  kp_seriesname :: "string option"
  kp_subseries :: "string option"
  kp_subassembly :: "string option"
  kp_symptomcomments :: "string option"
  kp_defectcomments :: "string option"
  kp_symptomcomments_clean :: "string option"
  kp_defectcomments_clean :: "string option"
  kp_partname :: "string option"
  kp_partquantity :: "string option"
  kp_embedding_symptom_vector :: "real list option"
  kp_embedding_defect_vector :: "real list option"

text \<open>A row returned by the search query: the selected columns and the computed score.\<close>

record similar_case =
  claimid :: string
  seriesname :: "string option"
  subseries :: "string option"
  subassembly :: "string option"
  symptomcomments :: "string option"
  defectcomments :: "string option"
  symptomcomments_clean :: "string option"
  defectcomments_clean :: "string option"
  partname :: "string option"
  partquantity :: "string option"
  similarity_score :: real

record part_recommendation =
  part_number :: string
  frequency :: nat
  confidence :: real
  recommended_from :: string

section \<open>Parts recommender: \<open>AdaptedTicketProcessor.extract_recommended_parts\<close>\<close>

fun count_parts :: "(string \<times> nat) list \<Rightarrow> string list \<Rightarrow> (string \<times> nat) list" where
  \<comment> \<open>the inner loop over the tokens of one case\<close>
  "count_parts parts_frequency [] = parts_frequency"
| "count_parts parts_frequency (part # rest) =
     count_parts
       (if part \<noteq> [] \<and> py_lower part \<noteq> ''nan''
        then dict_set parts_frequency part (dict_get parts_frequency part 0 + 1)
        else parts_frequency)
       rest"

fun count_cases :: "(string \<times> nat) list \<Rightarrow> similar_case list \<Rightarrow> (string \<times> nat) list" where
  \<comment> \<open>the outer loop over the cases; a missing, null or empty \<open>partname\<close> is skipped\<close>
  "count_cases parts_frequency [] = parts_frequency"
| "count_cases parts_frequency (c # cases) =
     count_cases
       (case partname c of
          None \<Rightarrow> parts_frequency
        | Some part_str \<Rightarrow>
            if part_str \<noteq> []
            then count_parts parts_frequency (map py_strip (py_split CHR '','' part_str))
            else parts_frequency)
       cases"

definition sorted_by_frequency_desc :: "(string \<times> nat) list \<Rightarrow> (string \<times> nat) list" where
  \<comment> \<open>\<open>sorted(items, key=lambda x: x[1], reverse=True)\<close>: stable, equal keys keep their order\<close>
  "sorted_by_frequency_desc items = sort_key (\<lambda>x. - int (snd x)) items"

definition make_recommendation :: "nat \<Rightarrow> string \<times> nat \<Rightarrow> part_recommendation" where
  "make_recommendation total_cases item =
     (let part = fst item; freq = snd item;
          conf = (if total_cases \<noteq> 0 then real freq / real total_cases else 0)
      in \<lparr> part_number = part,
           frequency = freq,
           confidence = py_round_ndigits3 conf,
           recommended_from = str_nat freq @ ''/'' @ str_nat total_cases @ '' similar cases'' \<rparr>)"

definition extract_recommended_parts :: "similar_case list \<Rightarrow> part_recommendation list" where
  "extract_recommended_parts similar_cases =
     (let parts_frequency = count_cases [] similar_cases;
          total_cases = length similar_cases;
          recommendations =
            map (make_recommendation total_cases) (sorted_by_frequency_desc parts_frequency)
      in take 10 recommendations)"


text \<open>
  The notions the statements about the recommender use: the tokens one case contributes
  (trimmed, non-empty, not the placeholder \<open>nan\<close>), the token stream of a case list, and the
  position at which a token is first seen in that stream.
\<close>

definition valid_token :: "string \<Rightarrow> bool" where
  "valid_token part = (part \<noteq> [] \<and> py_lower part \<noteq> ''nan'')"

definition case_tokens :: "similar_case \<Rightarrow> string list" where
  "case_tokens c =
     (case partname c of
        None \<Rightarrow> []
      | Some part_str \<Rightarrow> filter valid_token (map py_strip (py_split CHR '','' part_str)))"

definition all_tokens :: "similar_case list \<Rightarrow> string list" where
  "all_tokens cases = concat (map case_tokens cases)"

definition first_index :: "'a list \<Rightarrow> 'a \<Rightarrow> nat" where
  "first_index xs x = length (takeWhile (\<lambda>y. y \<noteq> x) xs)"

definition dict_incr :: "(string \<times> nat) list \<Rightarrow> string \<Rightarrow> (string \<times> nat) list" where
  "dict_incr d part = dict_set d part (dict_get d part 0 + 1)"

definition counted :: "string list \<Rightarrow> (string \<times> nat) list \<Rightarrow> bool" where
  \<comment> \<open>the loop invariant of the counting loops, after the token stream \<open>ts\<close>\<close>
  "counted ts d \<longleftrightarrow>
     distinct (map fst d) \<and> set (map fst d) = set ts \<and>
     sorted_wrt (\<lambda>a b. first_index ts a < first_index ts b) (map fst d) \<and>
     (\<forall>k. map_of d k = (if k \<in> set ts then Some (count_list ts k) else None))"

section \<open>The world outside the repository\<close>

text \<open>
  One query sent to the store by \<open>run_query\<close>: the weight of the symptom similarity (the
  defect similarity gets \<open>1 - q_alpha\<close>), the query vector, and the \<open>ILIKE\<close> pattern of the
  type filter when the filter is part of the statement.
\<close>

record store_query =
  q_alpha :: real
  q_vector :: "real list"
  q_type_pattern :: "string option"

datatype event = Embedding_request string | Store_query store_query

text \<open>A suggestion returned by \<open>SymptomSuggestionService\<close>, with the keys the agent reads.\<close>

record symptom_suggestion =
  sg_technical_symptom :: "string option"
  sg_symptom :: "string option"
  sg_suggestion :: string

text \<open>
  Everything the code reaches through a library: the database (whether the connection
  opens, the rows of \<open>kubota_parts\<close>, pgvector's cosine distance \<open><=>\<close>, PostgreSQL's
  \<open>ILIKE\<close>, a fault raised by \<open>cursor.execute\<close>), the remote embedding model, the symptom
  service, an exception that escapes a call of \<open>find_similar_issues\<close> (it catches whatever
  its \<open>try\<close> block raises, so only the clean-up of its \<open>finally\<close> clause can raise),
  an exception raised by the graph library while it builds, compiles or runs the workflow,
  and Python's formatting of a float as \<open>.2f\<close> and \<open>.1%\<close>.
\<close>

record environment =
  db_connects :: bool
  kubota_parts :: "kubota_part list"
  cosine_distance :: "real list \<Rightarrow> real list \<Rightarrow> real"
  ilike :: "string \<Rightarrow> string \<Rightarrow> bool"
  execute_error :: "store_query \<Rightarrow> string option"
  embeddings_create :: "string \<Rightarrow> real list result"
  suggest_technical_symptoms :: "string \<Rightarrow> string \<Rightarrow> symptom_suggestion list result"
  search_error :: "string option"
  graph_error :: "string option"
  format_2f :: "real \<Rightarrow> string"
  format_1pct :: "real \<Rightarrow> string"

section \<open>Hybrid search: \<open>AdaptedTicketProcessor.find_similar_issues\<close>\<close>

definition generate_openai_embedding ::
  "environment \<Rightarrow> string \<Rightarrow> real list result \<times> event list" where
  "generate_openai_embedding env text =
     (if text = [] then (Inr (replicate 1536 0), [])
      else (embeddings_create env text, [Embedding_request text]))"

definition py_truthy :: "string option \<Rightarrow> bool" where
  \<comment> \<open>the truth value of an optional string: \<open>None\<close> and the empty string are false\<close>
  "py_truthy t = (case t of None \<Rightarrow> False | Some s \<Rightarrow> s \<noteq> [])"

definition sql_ilike :: "environment \<Rightarrow> string option \<Rightarrow> string \<Rightarrow> bool" where
  \<comment> \<open>\<open>column ILIKE pattern\<close> in a \<open>WHERE\<close> clause: a null column does not match\<close>
  "sql_ilike env column pattern =
     (case column of None \<Rightarrow> False | Some txt \<Rightarrow> ilike env txt pattern)"

definition sql_where :: "environment \<Rightarrow> store_query \<Rightarrow> kubota_part \<Rightarrow> bool" where
  "sql_where env q p =
     (kp_embedding_symptom_vector p \<noteq> None \<and> kp_embedding_defect_vector p \<noteq> None \<and>
      (case q_type_pattern q of
         None \<Rightarrow> True
       | Some pattern \<Rightarrow>
           sql_ilike env (kp_seriesname p) pattern \<or> sql_ilike env (kp_subassembly p) pattern))"

definition sql_score :: "environment \<Rightarrow> store_query \<Rightarrow> kubota_part \<Rightarrow> real" where
  "sql_score env q p =
     (case (kp_embedding_symptom_vector p, kp_embedding_defect_vector p) of
        (Some sv, Some dv) \<Rightarrow>
          q_alpha q * (1 - cosine_distance env sv (q_vector q)) +
          (1 - q_alpha q) * (1 - cosine_distance env dv (q_vector q))
      | _ \<Rightarrow> 0)"

definition sql_project :: "environment \<Rightarrow> store_query \<Rightarrow> kubota_part \<Rightarrow> similar_case" where
  "sql_project env q p =
     \<lparr> claimid = kp_claimid p,
       seriesname = kp_seriesname p,
       subseries = kp_subseries p,
       subassembly = kp_subassembly p,
       symptomcomments = kp_symptomcomments p,
       defectcomments = kp_defectcomments p,
       symptomcomments_clean = kp_symptomcomments_clean p,
       defectcomments_clean = kp_defectcomments_clean p,
       partname = kp_partname p,
       partquantity = kp_partquantity p,
       similarity_score = sql_score env q p \<rparr>"

definition sql_select :: "environment \<Rightarrow> store_query \<Rightarrow> similar_case list" where
  \<comment> \<open>\<open>SELECT ... WHERE ... ORDER BY similarity_score DESC LIMIT 20\<close>; rows of equal score
      are kept in table order\<close>
  "sql_select env q =
     take 20 (sort_key (\<lambda>r. - similarity_score r)
                (map (sql_project env q) (filter (sql_where env q) (kubota_parts env))))"

definition build_query :: "string option \<Rightarrow> real list \<Rightarrow> real \<Rightarrow> bool \<Rightarrow> store_query" where
  \<comment> \<open>the statement and parameters \<open>run_query\<close> puts together: the type filter is added
      when \<open>with_type and issue_type\<close> holds\<close>
  "build_query issue_type query_embedding alpha_value with_type =
     \<lparr> q_alpha = alpha_value,
       q_vector = query_embedding,
       q_type_pattern =
         (case issue_type of
            None \<Rightarrow> None
          | Some t \<Rightarrow> if with_type \<and> t \<noteq> [] then Some (''%'' @ t @ ''%'') else None) \<rparr>"

definition run_query ::
  "environment \<Rightarrow> string option \<Rightarrow> real list \<Rightarrow> real \<Rightarrow> bool
     \<Rightarrow> similar_case list result \<times> event list" where
  "run_query env issue_type query_embedding alpha_value with_type =
     (let q = build_query issue_type query_embedding alpha_value with_type
      in ((case execute_error env q of
             Some e \<Rightarrow> Inl e
           | None \<Rightarrow> Inr (sql_select env q)),
          [Store_query q]))"

definition retry_if_empty ::
  "bool \<Rightarrow> similar_case list result \<times> event list
     \<Rightarrow> similar_case list result \<times> event list
     \<Rightarrow> similar_case list result \<times> event list" where
  \<comment> \<open>\<open>if not rows and cond: rows = attempt\<close>; an exception raised earlier is passed on\<close>
  "retry_if_empty cond attempt st =
     (case st of
        (Inl e, evs) \<Rightarrow> (Inl e, evs)
      | (Inr rows, evs) \<Rightarrow>
          if rows = [] \<and> cond then (fst attempt, evs @ snd attempt) else (Inr rows, evs))"

definition fallback_cascade ::
  "environment \<Rightarrow> string option \<Rightarrow> real list \<Rightarrow> real
     \<Rightarrow> similar_case list result \<times> event list" where
  "fallback_cascade env issue_type query_embedding alpha =
     (let s1 = run_query env issue_type query_embedding alpha True;
          s2 = retry_if_empty True (run_query env issue_type query_embedding 0.5 True) s1;
          s3 = retry_if_empty (py_truthy issue_type)
                 (run_query env issue_type query_embedding alpha False) s2;
          s4 = retry_if_empty True (run_query env issue_type query_embedding 0.5 False) s3
      in s4)"

definition search_with_embedding ::
  "environment \<Rightarrow> real list \<Rightarrow> string option \<Rightarrow> int \<Rightarrow> real \<Rightarrow> real
     \<Rightarrow> similar_case list \<times> event list" where
  \<comment> \<open>the rest of the \<open>try\<close> block once the query embedding is there\<close>
  "search_with_embedding env query_embedding issue_type limit alpha min_cutoff =
     (if query_embedding = [] then ([], [])
      else (case fallback_cascade env issue_type query_embedding alpha of
              (Inl e, evs) \<Rightarrow> ([], evs)
            | (Inr rows, evs) \<Rightarrow>
                (py_slice_to limit (filter (\<lambda>r. min_cutoff \<le> similarity_score r) rows), evs)))"

definition find_similar_issues ::
  "environment \<Rightarrow> string \<Rightarrow> string option \<Rightarrow> int \<Rightarrow> real \<Rightarrow> real
     \<Rightarrow> similar_case list \<times> event list" where
  \<comment> \<open>the rows returned and the requests sent to the embedding model and to the store\<close>
  "find_similar_issues env issue_text issue_type limit alpha min_cutoff =
     (if \<not> db_connects env then ([], [])
      else (case generate_openai_embedding env issue_text of
              (Inl e, evs) \<Rightarrow> ([], evs)
            | (Inr query_embedding, evs) \<Rightarrow>
                (let (rows, qs) =
                       search_with_embedding env query_embedding issue_type limit alpha min_cutoff
                 in (rows, evs @ qs))))"

definition store_queries :: "event list \<Rightarrow> store_query list" where
  "store_queries evs = concat (map (\<lambda>ev. case ev of Store_query q \<Rightarrow> [q] | _ \<Rightarrow> []) evs)"


text \<open>
  The fallback policy in the words of the specification: the attempts in their order (the
  third one only with a type hint), issued one after the other until one returns rows.
\<close>

definition fallback_attempts :: "string option \<Rightarrow> real list \<Rightarrow> real \<Rightarrow> store_query list" where
  "fallback_attempts issue_type query_embedding alpha =
     [build_query issue_type query_embedding alpha True,
      build_query issue_type query_embedding 0.5 True]
     @ (if py_truthy issue_type then [build_query issue_type query_embedding alpha False] else [])
     @ [build_query issue_type query_embedding 0.5 False]"

fun issued_until_rows :: "environment \<Rightarrow> store_query list \<Rightarrow> store_query list" where
  "issued_until_rows env [] = []"
| "issued_until_rows env [q] = [q]"
| "issued_until_rows env (q # q' # qs) =
     (if sql_select env q \<noteq> [] then [q] else q # issued_until_rows env (q' # qs))"

section \<open>The agent's state: \<open>KubotaAIState\<close>\<close>

record formatted_part =
  fp_part_number :: string
  fp_confidence :: real
  fp_frequency :: nat
  fp_reasoning :: string
  fp_source_cases :: "string list"

record stock_info =
  si_part_number :: string
  si_in_stock :: bool
  si_quantity :: nat
  si_estimated_cost :: real

record inventory =
  available_parts :: "stock_info list"
  out_of_stock_parts :: "stock_info list"
  low_stock_parts :: "stock_info list"
  total_estimated_cost :: real

record confidence_map =
  case_similarity :: real
  parts_confidence :: real
  overall_confidence :: real
  quality :: string

record final_recommendation =
  fr_part_number :: string
  fr_confidence :: real
  fr_frequency :: nat
  fr_reasoning :: string
  fr_priority :: string

text \<open>
  The two dictionaries \<open>confidence_scores\<close> and \<open>inventory_status\<close> start empty (\<open>None\<close>
  here) and are replaced as a whole by their stage.
\<close>

record kubota_ai_state =
  user_issue :: string
  machine_series :: "string option"
  user_id :: "int option"
  ticket_id :: "int option"
  processed_symptoms :: "string list"
  embedding_vector :: "real list option"
  similar_cases :: "similar_case list"
  recommended_parts :: "formatted_part list"
  confidence_scores :: "confidence_map option"
  inventory_status :: "inventory option"
  final_recommendations :: "final_recommendation list"
  explanation :: string
  next_actions :: "string list"
  workflow_stage :: string
  processing_log :: "string list"
  error_message :: "string option"

definition log_append :: "string \<Rightarrow> kubota_ai_state \<Rightarrow> kubota_ai_state" where
  \<comment> \<open>\<open>state["processing_log"].append(msg)\<close>\<close>
  "log_append msg state = state\<lparr>processing_log := processing_log state @ [msg]\<rparr>"

fun py_join :: "string \<Rightarrow> string list \<Rightarrow> string" where
  "py_join sep [] = []"
| "py_join sep [x] = x"
| "py_join sep (x # y # ys) = x @ sep @ py_join sep (y # ys)"

section \<open>The agent's nodes: \<open>KubotaPartsAIAgent\<close>\<close>

definition symptom_text :: "symptom_suggestion \<Rightarrow> string" where
  \<comment> \<open>\<open>symptom.get("technical_symptom", symptom.get("symptom", ""))\<close>\<close>
  "symptom_text symptom =
     (case sg_technical_symptom symptom of
        Some t \<Rightarrow> t
      | None \<Rightarrow> (case sg_symptom symptom of Some t \<Rightarrow> t | None \<Rightarrow> []))"

definition symptom_analyzer_node :: "environment \<Rightarrow> kubota_ai_state \<Rightarrow> kubota_ai_state" where
  "symptom_analyzer_node env state =
     (let s1 = state\<lparr>workflow_stage := ''symptom_analysis''\<rparr>;
          s2 = log_append (''Starting symptom analysis: '' @ take 100 (user_issue s1) @ ''...'') s1
      in case suggest_technical_symptoms env (user_issue s2)
                (case machine_series s2 of Some m \<Rightarrow> m | None \<Rightarrow> []) of
           Inl e \<Rightarrow>
             s2\<lparr>error_message := Some (''Symptom analysis failed: '' @ e),
                processed_symptoms := [user_issue s2]\<rparr>
         | Inr technical_symptoms \<Rightarrow>
             (let found = map symptom_text technical_symptoms;
                  processed = (if found = [] then [user_issue s2] else found);
                  s3 = s2\<lparr>processed_symptoms := processed\<rparr>
              in log_append (''Generated '' @ str_nat (length processed) @ '' processed symptoms'') s3))"

definition embedding_generator_node :: "environment \<Rightarrow> kubota_ai_state \<Rightarrow> kubota_ai_state" where
  "embedding_generator_node env state =
     (let s1 = state\<lparr>workflow_stage := ''embedding_generation''\<rparr>;
          s2 = log_append ''Generating embeddings for symptom matching...'' s1;
          search_text = py_join '' '' (processed_symptoms s2)
      in case embeddings_create env search_text of
           Inl e \<Rightarrow>
             s2\<lparr>error_message := Some (''Embedding generation failed: '' @ e),
                embedding_vector := None\<rparr>
         | Inr vec \<Rightarrow>
             log_append (''Generated '' @ str_nat (length vec) @ ''-dimensional embedding vector'')
               (s2\<lparr>embedding_vector := Some vec\<rparr>))"

definition call_find_similar_issues ::
  "environment \<Rightarrow> string \<Rightarrow> string option \<Rightarrow> int \<Rightarrow> real \<Rightarrow> real \<Rightarrow> similar_case list result" where
  \<comment> \<open>a call of \<open>self.processor.find_similar_issues\<close> as its caller sees it\<close>
  "call_find_similar_issues env issue_text issue_type limit alpha min_cutoff =
     (case search_error env of
        Some e \<Rightarrow> Inl e
      | None \<Rightarrow> Inr (fst (find_similar_issues env issue_text issue_type limit alpha min_cutoff)))"

definition similarity_searcher_node :: "environment \<Rightarrow> kubota_ai_state \<Rightarrow> kubota_ai_state" where
  "similarity_searcher_node env state =
     (let s1 = state\<lparr>workflow_stage := ''similarity_search''\<rparr>;
          s2 = log_append ''Searching for similar cases using vector similarity...'' s1;
          no_embedding = (case embedding_vector s2 of None \<Rightarrow> True | Some vec \<Rightarrow> vec = []);
          s3 = (if no_embedding
                then log_append ''No embedding available, falling back to text search'' s2
                else s2);
          found = (if no_embedding
                   then call_find_similar_issues env (user_issue s3) (Some ''general'') 10 0.7 0.65
                   else call_find_similar_issues env (user_issue s3) None 10 0.7 0.65)
      in case found of
           Inl e \<Rightarrow>
             s3\<lparr>error_message := Some (''Similarity search failed: '' @ e),
                similar_cases := []\<rparr>
         | Inr cases \<Rightarrow>
             (let s4 = s3\<lparr>similar_cases := cases\<rparr>
              in log_append (''Found '' @ str_nat (length (similar_cases s4)) @ '' similar cases'') s4))"

definition format_part :: "part_recommendation \<Rightarrow> formatted_part" where
  \<comment> \<open>the recommender's dictionaries have neither \<open>reasoning\<close> nor \<open>recommendedfrom\<close> nor
      \<open>source_cases\<close>, so the defaults are taken\<close>
  "format_part part =
     \<lparr> fp_part_number = part_number part,
       fp_confidence = confidence part,
       fp_frequency = frequency part,
       fp_reasoning = ''Historical data'',
       fp_source_cases = [] \<rparr>"

definition parts_recommender_node :: "kubota_ai_state \<Rightarrow> kubota_ai_state" where
  "parts_recommender_node state =
     (let s1 = state\<lparr>workflow_stage := ''parts_recommendation''\<rparr>;
          s2 = log_append ''Extracting parts recommendations from similar cases...'' s1
      in if similar_cases s2 = [] then s2\<lparr>recommended_parts := []\<rparr>
         else (let formatted_parts = map format_part (extract_recommended_parts (similar_cases s2));
                   s3 = s2\<lparr>recommended_parts := formatted_parts\<rparr>
               in log_append (''Recommended '' @ str_nat (length formatted_parts) @ '' parts'') s3))"

definition check_part :: "inventory \<Rightarrow> formatted_part \<Rightarrow> inventory" where
  \<comment> \<open>the body of the inventory loop: a mock stock record for every named part\<close>
  "check_part status part =
     (if fp_part_number part \<noteq> []
      then (let stock = \<lparr> si_part_number = fp_part_number part, si_in_stock = True,
                           si_quantity = 10, si_estimated_cost = 45.50 \<rparr>
            in status\<lparr>available_parts := available_parts status @ [stock],
                   total_estimated_cost := total_estimated_cost status + si_estimated_cost stock\<rparr>)
      else status)"

definition inventory_checker_node :: "kubota_ai_state \<Rightarrow> kubota_ai_state" where
  "inventory_checker_node state =
     (let s1 = state\<lparr>workflow_stage := ''inventory_check''\<rparr>;
          s2 = log_append ''Checking inventory availability...'' s1;
          no_stock = \<lparr> available_parts = [], out_of_stock_parts = [], low_stock_parts = [],
                    total_estimated_cost = 0 \<rparr>;
          s3 = s2\<lparr>inventory_status := Some (foldl check_part no_stock (recommended_parts s2))\<rparr>
      in log_append (''Checked inventory for '' @ str_nat (length (recommended_parts s3)) @ '' parts'') s3)"

definition confidence_evaluator_node :: "environment \<Rightarrow> kubota_ai_state \<Rightarrow> kubota_ai_state" where
  "confidence_evaluator_node env state =
     (let s1 = state\<lparr>workflow_stage := ''confidence_evaluation''\<rparr>;
          s2 = log_append ''Evaluating recommendation confidence...'' s1;
          cases = similar_cases s2;
          parts = recommended_parts s2;
          avg_similarity =
            (if cases \<noteq> [] then sum_list (map similarity_score cases) / real (length cases) else 0);
          avg_part_confidence =
            (if parts \<noteq> [] then sum_list (map fp_confidence parts) / real (length parts) else 0);
          overall = avg_similarity * 0.4 + avg_part_confidence * 0.6;
          label = (if overall > 0.8 then ''high'' else if overall > 0.6 then ''medium'' else ''low'');
          s3 = s2\<lparr>confidence_scores :=
                    Some \<lparr> case_similarity = avg_similarity,
                           parts_confidence = avg_part_confidence,
                           overall_confidence = overall,
                           quality = label \<rparr>\<rparr>
      in log_append (''Overall confidence: '' @ format_2f env overall) s3)"

definition make_final :: "formatted_part \<Rightarrow> final_recommendation" where
  "make_final part =
     \<lparr> fr_part_number = fp_part_number part,
       fr_confidence = fp_confidence part,
       fr_frequency = fp_frequency part,
       fr_reasoning = fp_reasoning part,
       fr_priority = (if fp_confidence part > 0.8 then ''high''
                      else if fp_confidence part > 0.6 then ''medium'' else ''low'') \<rparr>"

definition explanation_text :: "environment \<Rightarrow> string \<Rightarrow> nat \<Rightarrow> nat \<Rightarrow> real \<Rightarrow> string" where
  \<comment> \<open>the f-string of the formatter, before \<open>strip()\<close>\<close>
  "explanation_text env issue case_count n_parts conf =
     (let nl = [CHR 0x0A]; ind = replicate 12 CHR '' ''
      in nl @ ind @ ''AI Analysis Complete:'' @ nl
         @ nl
         @ ind @ ''Issue: '' @ issue @ nl
         @ ind @ ''Similar Cases Found: '' @ str_nat case_count @ nl
         @ ind @ ''Overall Confidence: '' @ format_2f env conf @ nl
         @ nl
         @ ind @ ''Based on analysis of '' @ str_nat case_count
               @ '' similar cases from your Kubota parts database,'' @ nl
         @ ind @ ''I've identified '' @ str_nat n_parts @ '' recommended parts with '' @ nl
         @ ind @ format_1pct env conf @ '' confidence level.'' @ nl
         @ nl
         @ ind @ ''The recommendations are ranked by confidence score and frequency of use'' @ nl
         @ ind @ ''in similar repair scenarios.'' @ nl
         @ ind)"

definition recommendation_formatter_node :: "environment \<Rightarrow> kubota_ai_state \<Rightarrow> kubota_ai_state" where
  "recommendation_formatter_node env state =
     (let s1 = state\<lparr>workflow_stage := ''formatting''\<rparr>;
          s2 = log_append ''Formatting final recommendations...'' s1;
          finals = sort_key (\<lambda>x. - fr_confidence x) (map make_final (recommended_parts s2));
          s3 = s2\<lparr>final_recommendations := finals\<rparr>;
          conf = (case confidence_scores s3 of None \<Rightarrow> 0 | Some cs \<Rightarrow> overall_confidence cs);
          case_count = length (similar_cases s3);
          s4 = s3\<lparr>explanation :=
                    py_strip (explanation_text env (user_issue s3) case_count (length finals) conf)\<rparr>;
          actions = (if conf > 0.8 then [''Proceed with high-confidence recommendations'']
                     else if conf > 0.6 then [''Review recommendations with technician'']
                     else [''Gather more diagnostic information''])
                    @ (case inventory_status s4 of
                         None \<Rightarrow> []
                       | Some status \<Rightarrow>
                           if out_of_stock_parts status \<noteq> [] then [''Order out-of-stock parts''] else []);
          s5 = s4\<lparr>next_actions := actions, workflow_stage := ''completed''\<rparr>
      in log_append ''Workflow completed successfully'' s5)"

section \<open>The workflow and \<open>process_issue\<close>\<close>

definition workflow_nodes :: "environment \<Rightarrow> (kubota_ai_state \<Rightarrow> kubota_ai_state) list" where
  \<comment> \<open>the nodes in the order of the graph's edges, from the entry point to \<open>END\<close>\<close>
  "workflow_nodes env =
     [symptom_analyzer_node env,
      embedding_generator_node env,
      similarity_searcher_node env,
      parts_recommender_node,
      inventory_checker_node,
      confidence_evaluator_node env,
      recommendation_formatter_node env]"

definition run_nodes ::
  "(kubota_ai_state \<Rightarrow> kubota_ai_state) list \<Rightarrow> kubota_ai_state \<Rightarrow> kubota_ai_state" where
  "run_nodes nodes state = foldl (\<lambda>s node. node s) state nodes"

definition workflow_invoke :: "environment \<Rightarrow> kubota_ai_state \<Rightarrow> kubota_ai_state result" where
  \<comment> \<open>\<open>self._build_workflow().compile().invoke(initial_state)\<close>\<close>
  "workflow_invoke env state =
     (case graph_error env of
        Some e \<Rightarrow> Inl e
      | None \<Rightarrow> Inr (run_nodes (workflow_nodes env) state))"

definition initial_state ::
  "string \<Rightarrow> string option \<Rightarrow> int option \<Rightarrow> int option \<Rightarrow> kubota_ai_state" where
  "initial_state issue series uid tid =
     \<lparr> user_issue = issue,
       machine_series = series,
       user_id = uid,
       ticket_id = tid,
       processed_symptoms = [],
       embedding_vector = None,
       similar_cases = [],
       recommended_parts = [],
       confidence_scores = None,
       inventory_status = None,
       final_recommendations = [],
       explanation = [],
       next_actions = [],
       workflow_stage = ''initialized'',
       processing_log = [],
       error_message = None \<rparr>"

text \<open>
  The dictionary \<open>process_issue\<close> returns. The keys the failure dictionary does not have
  are \<open>None\<close> there; \<open>r_error\<close> is the key \<open>error\<close>, which only the failure dictionary has.
\<close>

record issue_response =
  success :: bool
  workflow_completed :: "bool option"
  r_error :: "string option"
  r_user_issue :: string
  r_final_recommendations :: "final_recommendation list"
  r_explanation :: string
  r_confidence_scores :: "confidence_map option"
  r_similar_cases_count :: "nat option"
  r_inventory_status :: "inventory option"
  r_next_actions :: "string list option"
  r_processing_log :: "string list option"
  r_embedding_used :: bool
  r_error_message :: "string option"

definition process_issue ::
  "environment \<Rightarrow> string \<Rightarrow> string option \<Rightarrow> int option \<Rightarrow> int option \<Rightarrow> issue_response" where
  "process_issue env issue series uid tid =
     (case workflow_invoke env (initial_state issue series uid tid) of
        Inr final_state \<Rightarrow>
          \<lparr> success = True,
            workflow_completed = Some True,
            r_error = None,
            r_user_issue = issue,
            r_final_recommendations = final_recommendations final_state,
            r_explanation = explanation final_state,
            r_confidence_scores = confidence_scores final_state,
            r_similar_cases_count = Some (length (similar_cases final_state)),
            r_inventory_status = inventory_status final_state,
            r_next_actions = Some (next_actions final_state),
            r_processing_log = Some (processing_log final_state),
            r_embedding_used = (embedding_vector final_state \<noteq> None),
            r_error_message = error_message final_state \<rparr>
      | Inl e \<Rightarrow>
          \<lparr> success = False,
            workflow_completed = None,
            r_error = Some e,
            r_user_issue = issue,
            r_final_recommendations = [],
            r_explanation = ''Workflow failed: '' @ e,
            r_confidence_scores = None,
            r_similar_cases_count = None,
            r_inventory_status = None,
            r_next_actions = None,
            r_processing_log = None,
            r_embedding_used = False,
            r_error_message = None \<rparr>)"


definition arithmetic_mean :: "real list \<Rightarrow> real" where
  "arithmetic_mean xs = (if xs = [] then 0 else sum_list xs / real (length xs))"

section \<open>Concrete inputs\<close>

definition case_with :: "string \<Rightarrow> string option \<Rightarrow> real \<Rightarrow> similar_case" where
  "case_with cid parts score =
     \<lparr> claimid = cid, seriesname = None, subseries = None, subassembly = None,
       symptomcomments = None, defectcomments = None,
       symptomcomments_clean = None, defectcomments_clean = None,
       partname = parts, partquantity = None, similarity_score = score \<rparr>"

definition row_with ::
  "string \<Rightarrow> string option \<Rightarrow> string option \<Rightarrow> real list option \<Rightarrow> real list option
     \<Rightarrow> kubota_part" where
  "row_with cid series parts sv dv =
     \<lparr> kp_claimid = cid, kp_seriesname = series, kp_subseries = None, kp_subassembly = None,
       kp_symptomcomments = None, kp_defectcomments = None,
       kp_symptomcomments_clean = None, kp_defectcomments_clean = None,
       kp_partname = parts, kp_partquantity = None,
       kp_embedding_symptom_vector = sv, kp_embedding_defect_vector = dv \<rparr>"

fun contains_text :: "string \<Rightarrow> string \<Rightarrow> bool" where
  "contains_text xs [] = (xs = [])"
| "contains_text xs (y # ys) = (take (length xs) (y # ys) = xs \<or> contains_text xs ys)"

definition demo_env :: environment where
  \<comment> \<open>a store of four rows, one without a symptom vector; the distance is 0 between equal
      vectors and 1 otherwise; the embedding model maps every text to the same vector\<close>
  "demo_env =
     \<lparr> db_connects = True,
       kubota_parts =
         [row_with ''K1'' (Some ''L39'') (Some ''7J065-85200, 9L200-54321'') (Some [1, 2]) (Some [1, 2]),
          row_with ''K2'' (Some ''BX23'') (Some ''9L200-54321'') (Some [1, 2]) (Some [3, 4]),
          row_with ''K3'' (Some ''BX25'') (Some ''6C040-11111'') None (Some [1, 2]),
          row_with ''K4'' (Some ''M60'') (Some ''7J065-85200'') (Some [3, 4]) (Some [1, 2])],
       cosine_distance = (\<lambda>u v. if u = v then 0 else 1),
       ilike = (\<lambda>txt pattern. contains_text (py_lower (butlast (tl pattern))) (py_lower txt)),
       execute_error = (\<lambda>q. None),
       embeddings_create = (\<lambda>txt. Inr [1, 2]),
       suggest_technical_symptoms =
         (\<lambda>issue machine. Inr [\<lparr> sg_technical_symptom = None, sg_symptom = None,
                                  sg_suggestion = issue \<rparr>]),
       search_error = None,
       graph_error = None,
       format_2f = (\<lambda>x. ''?''),
       format_1pct = (\<lambda>x. ''?'') \<rparr>"

definition failing_env :: environment where
  \<comment> \<open>the same store, with the symptom service, the embedding model and the search call
      all raising\<close>
  "failing_env =
     demo_env \<lparr> embeddings_create := (\<lambda>txt. Inl ''quota exceeded''),
                suggest_technical_symptoms := (\<lambda>issue machine. Inl ''service down''),
                search_error := Some ''connection already closed'' \<rparr>"




definition boundary_state :: "real \<Rightarrow> kubota_ai_state" where
  \<comment> \<open>a state with one similar case and one recommended part, both of value \<open>x\<close>\<close>
  "boundary_state x =
     (initial_state ''leak'' None None None)
       \<lparr> similar_cases := [case_with ''K1'' None x],
         recommended_parts :=
           [\<lparr> fp_part_number = ''7J065-85200'', fp_confidence = x, fp_frequency = 1,
               fp_reasoning = ''Historical data'', fp_source_cases = [] \<rparr>] \<rparr>"

definition broken_graph_env :: environment where
  \<comment> \<open>the graph library raises\<close>
  "broken_graph_env = demo_env \<lparr> graph_error := Some ''node not found'' \<rparr>"

definition demo_issue :: kubota_ai_state where
  "demo_issue = initial_state ''leak'' None None None"

definition demo_searched :: kubota_ai_state where
  \<comment> \<open>the state of the run on \<open>demo_env\<close> after its first three stages\<close>
  "demo_searched =
     similarity_searcher_node demo_env
       (embedding_generator_node demo_env (symptom_analyzer_node demo_env demo_issue))"

section \<open>Properties of the parts recommender\<close>

lemmas eval_defs =
  extract_recommended_parts_def py_strip_def py_isspace_def py_lower_def py_lower_char_def
  dict_get_def sorted_by_frequency_desc_def make_recommendation_def py_round_ndigits3_def
  py_round_def Let_def str_nat.simps digit_char_def case_with_def

lemma map_of_dict_set: "map_of (dict_set d k v) = (map_of d)(k \<mapsto> v)"
  by (induction d) (auto simp: fun_eq_iff)

lemma keys_dict_set_mem:
  "k \<in> set (map fst d) \<Longrightarrow> map fst (dict_set d k v) = map fst d"
  by (induction d) force+

lemma keys_dict_set_new:
  "k \<notin> set (map fst d) \<Longrightarrow> map fst (dict_set d k v) = map fst d @ [k]"
  by (induction d) auto

lemma count_parts_foldl: "count_parts d ps = foldl dict_incr d (filter valid_token ps)"
  by (induction ps arbitrary: d) (simp_all add: valid_token_def dict_incr_def)

lemma count_cases_foldl: "count_cases d cases = foldl dict_incr d (all_tokens cases)"
proof (induction cases arbitrary: d)
  case Nil
  show ?case by (simp add: all_tokens_def)
next
  case (Cons c cases)
  have one: "(case partname c of
          None \<Rightarrow> d
        | Some part_str \<Rightarrow>
            if part_str \<noteq> []
            then count_parts d (map py_strip (py_split CHR '','' part_str))
            else d) = foldl dict_incr d (case_tokens c)"
    by (cases "partname c")
       (simp_all add: case_tokens_def count_parts_foldl py_strip_def valid_token_def)
  show ?case
    using Cons.IH by (simp add: one all_tokens_def)
qed


lemma first_index_append_mem:
  "x \<in> set xs \<Longrightarrow> first_index (xs @ ys) x = first_index xs x"
  unfolding first_index_def by (induction xs) auto

lemma first_index_append_new:
  "x \<notin> set xs \<Longrightarrow> first_index (xs @ [x]) x = length xs"
  unfolding first_index_def by (induction xs) auto

lemma first_index_less: "x \<in> set xs \<Longrightarrow> first_index xs x < length xs"
  unfolding first_index_def by (induction xs) auto

lemma counted_step:
  assumes "counted ts d"
  shows "counted (ts @ [t]) (dict_incr d t)"
proof -
  from assms have dist: "distinct (map fst d)" and keys: "set (map fst d) = set ts"
    and ord: "sorted_wrt (\<lambda>a b. first_index ts a < first_index ts b) (map fst d)"
    and vals: "\<And>k. map_of d k = (if k \<in> set ts then Some (count_list ts k) else None)"
    by (simp_all add: counted_def)
  have get: "dict_get d t 0 = count_list ts t"
    by (simp add: dict_get_def vals)
  have m: "\<And>k. map_of (dict_incr d t) k =
             (if k \<in> set (ts @ [t]) then Some (count_list (ts @ [t]) k) else None)"
    by (simp add: dict_incr_def map_of_dict_set get vals)
  show ?thesis
  proof (cases "t \<in> set ts")
    case True
    then have k: "map fst (dict_incr d t) = map fst d"
      using keys by (simp add: dict_incr_def keys_dict_set_mem)
    have "sorted_wrt (\<lambda>a b. first_index (ts @ [t]) a < first_index (ts @ [t]) b) (map fst d)"
      using ord keys by (auto simp: first_index_append_mem elim: sorted_wrt_mono_rel[rotated])
    with True dist keys m k show ?thesis
      unfolding counted_def by auto
  next
    case False
    then have k: "map fst (dict_incr d t) = map fst d @ [t]"
      using keys by (simp add: dict_incr_def keys_dict_set_new)
    have o1: "sorted_wrt (\<lambda>a b. first_index (ts @ [t]) a < first_index (ts @ [t]) b) (map fst d)"
      using ord keys by (auto simp: first_index_append_mem elim: sorted_wrt_mono_rel[rotated])
    have o2: "\<forall>a \<in> set (map fst d). first_index (ts @ [t]) a < first_index (ts @ [t]) t"
      using keys False by (auto simp: first_index_append_mem first_index_append_new first_index_less)
    have "sorted_wrt (\<lambda>a b. first_index (ts @ [t]) a < first_index (ts @ [t]) b) (map fst d @ [t])"
      using o1 o2 by (simp add: sorted_wrt_append)
    with False dist keys m k show ?thesis
      unfolding counted_def by auto
  qed
qed

lemma counted_foldl: "counted ts (foldl dict_incr [] ts)"
proof (induction ts rule: rev_induct)
  case Nil
  show ?case by (simp add: counted_def)
next
  case (snoc t ts)
  then show ?case by (simp add: counted_step)
qed

lemma counted_count_cases: "counted (all_tokens cases) (count_cases [] cases)"
  by (simp add: count_cases_foldl counted_foldl)


lemma insort_key_stable_wrt:
  fixes f :: "'a \<Rightarrow> int"
  assumes "sorted_wrt (\<lambda>a b. f a < f b \<or> (f a = f b \<and> R a b)) ys"
    and "\<forall>y \<in> set ys. R x y"
  shows "sorted_wrt (\<lambda>a b. f a < f b \<or> (f a = f b \<and> R a b)) (insort_key f x ys)"
  using assms
proof (induction ys)
  case Nil
  show ?case by simp
next
  case (Cons y ys)
  show ?case
  proof (cases "f x \<le> f y")
    case True
    have "\<forall>z \<in> set (y # ys). f x < f z \<or> (f x = f z \<and> R x z)"
      using True Cons.prems by force
    with True Cons.prems(1) show ?thesis by simp
  next
    case False
    with Cons show ?thesis by (auto simp: set_insort_key)
  qed
qed

lemma sort_key_stable_wrt:
  fixes f :: "'a \<Rightarrow> int"
  assumes "sorted_wrt R xs"
  shows "sorted_wrt (\<lambda>a b. f a < f b \<or> (f a = f b \<and> R a b)) (sort_key f xs)"
  using assms
proof (induction xs)
  case Nil
  show ?case by simp
next
  case (Cons x xs)
  then show ?case by (simp add: insort_key_stable_wrt)
qed









lemma make_recommendation_fields:
  "part_number (make_recommendation n item) = fst item"
  "frequency (make_recommendation n item) = snd item"
  "confidence (make_recommendation n item) =
     py_round_ndigits3 (if n \<noteq> 0 then real (snd item) / real n else 0)"
  by (simp_all add: make_recommendation_def Let_def)





text \<open>
  Claim C5. On the empty list \<open>extract_recommended_parts\<close> returns the empty list (the
  function has no failing operation, so it returns on every input); the result never has
  more than 10 entries; the entries are in descending order of frequency, and two entries of
  equal frequency stand in the order in which their parts were first seen in the token
  stream of the case list.
\<close>

theorem extract_sorted_top10:
  "extract_recommended_parts [] = [] \<and>
   length (extract_recommended_parts cases) \<le> 10 \<and>
   sorted_wrt (\<lambda>a b. frequency b \<le> frequency a) (extract_recommended_parts cases) \<and>
   sorted_wrt (\<lambda>a b. frequency b < frequency a \<or>
                 (frequency a = frequency b \<and>
                  first_index (all_tokens cases) (part_number a)
                    < first_index (all_tokens cases) (part_number b)))
     (extract_recommended_parts cases)"
proof -
  let ?ts = "all_tokens cases"
  let ?d = "count_cases [] cases"
  let ?R = "\<lambda>a b. first_index ?ts (fst a) < first_index ?ts (fst b)"
  let ?f = "\<lambda>x :: string \<times> nat. - int (snd x)"
  let ?Q = "\<lambda>a b. frequency b < frequency a \<or>
                 (frequency a = frequency b \<and>
                  first_index ?ts (part_number a) < first_index ?ts (part_number b))"
  have e: "extract_recommended_parts [] = []"
    by (simp add: extract_recommended_parts_def sorted_by_frequency_desc_def)
  have l: "length (extract_recommended_parts cases) \<le> 10"
    by (simp add: extract_recommended_parts_def Let_def)
  have "sorted_wrt (\<lambda>a b. first_index ?ts a < first_index ?ts b) (map fst ?d)"
    using counted_count_cases[of cases] by (simp add: counted_def)
  then have "sorted_wrt ?R ?d" by (simp add: sorted_wrt_map)
  then have "sorted_wrt (\<lambda>a b. ?f a < ?f b \<or> (?f a = ?f b \<and> ?R a b)) (sort_key ?f ?d)"
    by (rule sort_key_stable_wrt)
  then have "sorted_wrt ?Q (map (make_recommendation (length cases)) (sorted_by_frequency_desc ?d))"
    by (simp add: sorted_wrt_map sorted_by_frequency_desc_def make_recommendation_fields)
  then have s2: "sorted_wrt ?Q (extract_recommended_parts cases)"
    unfolding extract_recommended_parts_def Let_def by (rule sorted_wrt_take)
  then have s1: "sorted_wrt (\<lambda>a b. frequency b \<le> frequency a) (extract_recommended_parts cases)"
    by (rule sorted_wrt_mono_rel[rotated]) auto
  from e l s1 s2 show ?thesis by blast
qed


text \<open>
  Claim C2. The three cases of the end-to-end scenario, whatever their other fields: two with
  parts field \<open>7J065-85200, 9L200-54321\<close> (scores 0.9 and 0.8) and one with \<open>9L200-54321\<close>
  (score 0.7). The recommender returns \<open>9L200-54321\<close> with frequency 3 and confidence 1
  first, then \<open>7J065-85200\<close> with frequency 2 and confidence 0.667.
\<close>

theorem scenario_recommendations:
  "extract_recommended_parts
     [c1\<lparr>partname := Some ''7J065-85200, 9L200-54321'', similarity_score := 0.9\<rparr>,
      c2\<lparr>partname := Some ''7J065-85200, 9L200-54321'', similarity_score := 0.8\<rparr>,
      c3\<lparr>partname := Some ''9L200-54321'', similarity_score := 0.7\<rparr>]
   = [\<lparr> part_number = ''9L200-54321'', frequency = 3, confidence = 1,
         recommended_from = ''3/3 similar cases'' \<rparr>,
      \<lparr> part_number = ''7J065-85200'', frequency = 2, confidence = 0.667,
         recommended_from = ''2/3 similar cases'' \<rparr>]"
  by (simp add: eval_defs)

section \<open>Properties of the hybrid search\<close>

lemma sql_select_sorted:
  "sorted_wrt (\<lambda>a b. similarity_score b \<le> similarity_score a) (sql_select env q)"
proof -
  let ?xs = "map (sql_project env q) (filter (sql_where env q) (kubota_parts env))"
  have "sorted (map (\<lambda>r. - similarity_score r) (sort_key (\<lambda>r. - similarity_score r) ?xs))"
    by (rule sorted_sort_key)
  then have "sorted_wrt (\<lambda>a b. similarity_score b \<le> similarity_score a)
               (sort_key (\<lambda>r. - similarity_score r) ?xs)"
    by (simp add: sorted_wrt_map)
  then show ?thesis
    unfolding sql_select_def by (rule sorted_wrt_take)
qed

lemma run_query_rows:
  "fst (run_query env t qe a w) = Inr rows \<Longrightarrow> rows = sql_select env (build_query t qe a w)"
  by (auto simp: run_query_def Let_def split: option.splits)

lemma retry_if_empty_rows:
  assumes "fst (retry_if_empty c attempt st) = Inr rows"
  shows "fst st = Inr rows \<or> fst attempt = Inr rows"
  using assms by (auto simp: retry_if_empty_def split: prod.splits sum.splits if_splits)

lemma fallback_cascade_rows:
  assumes "fst (fallback_cascade env t qe a) = Inr rows"
  shows "\<exists>q. rows = sql_select env q"
  using assms unfolding fallback_cascade_def Let_def
  by (blast dest: retry_if_empty_rows run_query_rows)

lemma py_slice_to_take: "\<exists>n. py_slice_to limit xs = take n xs"
  by (auto simp: py_slice_to_def)

lemma py_slice_to_length: "0 \<le> limit \<Longrightarrow> int (length (py_slice_to limit xs)) \<le> limit"
  by (simp add: py_slice_to_def)

lemma search_with_embedding_cases:
  "fst (search_with_embedding env qe t limit a c) = []
   \<or> (\<exists>q. fst (search_with_embedding env qe t limit a c) =
         py_slice_to limit (filter (\<lambda>r. c \<le> similarity_score r) (sql_select env q)))"
proof (cases "fallback_cascade env t qe a")
  case (Pair res evs)
  show ?thesis
  proof (cases res)
    case (Inl e)
    with Pair show ?thesis by (simp add: search_with_embedding_def)
  next
    case (Inr rows)
    with Pair have "fst (fallback_cascade env t qe a) = Inr rows" by simp
    from fallback_cascade_rows[OF this] obtain q where "rows = sql_select env q" ..
    with Pair Inr show ?thesis by (auto simp: search_with_embedding_def)
  qed
qed

lemma find_similar_issues_cases:
  "fst (find_similar_issues env issue t limit a c) = []
   \<or> (\<exists>q. fst (find_similar_issues env issue t limit a c) =
         py_slice_to limit (filter (\<lambda>r. c \<le> similarity_score r) (sql_select env q)))"
proof -
  have "fst (find_similar_issues env issue t limit a c) = []
        \<or> (\<exists>qe. fst (find_similar_issues env issue t limit a c)
                 = fst (search_with_embedding env qe t limit a c))"
  proof (cases "generate_openai_embedding env issue")
    case (Pair res evs)
    show ?thesis
    proof (cases res)
      case (Inl e)
      with Pair show ?thesis by (simp add: find_similar_issues_def)
    next
      case (Inr qe)
      with Pair have "fst (find_similar_issues env issue t limit a c) =
          (if db_connects env then fst (search_with_embedding env qe t limit a c) else [])"
        by (simp add: find_similar_issues_def split: prod.splits)
      then show ?thesis by metis
    qed
  qed
  then show ?thesis using search_with_embedding_cases by metis
qed

text \<open>
  Claim C4, as the code has it. For every call of \<open>find_similar_issues\<close>: when \<open>limit\<close> is
  not negative the returned list has at most \<open>limit\<close> cases; every returned case has a
  similarity score of at least \<open>min_cutoff\<close>; and the returned cases are in descending order
  of similarity score. (A negative \<open>limit\<close> makes the slice \<open>filtered[:limit]\<close> drop cases
  from the end instead.)
\<close>

theorem search_result_shape:
  "(0 \<le> limit \<longrightarrow> int (length (fst (find_similar_issues env issue t limit a c))) \<le> limit) \<and>
   list_all (\<lambda>r. c \<le> similarity_score r) (fst (find_similar_issues env issue t limit a c)) \<and>
   sorted_wrt (\<lambda>x y. similarity_score y \<le> similarity_score x)
     (fst (find_similar_issues env issue t limit a c))"
proof -
  let ?res = "fst (find_similar_issues env issue t limit a c)"
  consider "?res = []"
    | q where "?res = py_slice_to limit (filter (\<lambda>r. c \<le> similarity_score r) (sql_select env q))"
    using find_similar_issues_cases [of env issue t limit a c] by blast
  then show ?thesis
  proof cases
    case 1
    then show ?thesis by simp
  next
    case 2
    let ?f = "filter (\<lambda>r. c \<le> similarity_score r) (sql_select env q)"
    obtain n where n: "py_slice_to limit ?f = take n ?f"
      using py_slice_to_take by blast
    have s: "sorted_wrt (\<lambda>x y. similarity_score y \<le> similarity_score x) ?f"
      using sql_select_sorted by (rule sorted_wrt_filter)
    have l: "0 \<le> limit \<longrightarrow> int (length ?res) \<le> limit"
      unfolding 2 by (simp add: py_slice_to_length)
    have a: "list_all (\<lambda>r. c \<le> similarity_score r) ?res"
      unfolding 2 n by (auto simp: list_all_iff dest: in_set_takeD)
    have "sorted_wrt (\<lambda>x y. similarity_score y \<le> similarity_score x) ?res"
      unfolding 2 n using s by (rule sorted_wrt_take)
    with l a show ?thesis by blast
  qed
qed

lemma retry_if_empty_Inr:
  "retry_if_empty c attempt (Inr rows, evs) =
     (if rows = [] \<and> c then (fst attempt, evs @ snd attempt) else (Inr rows, evs))"
  by (simp add: retry_if_empty_def)

lemma run_query_ok:
  "execute_error env (build_query t qe a w) = None \<Longrightarrow>
   run_query env t qe a w =
     (Inr (sql_select env (build_query t qe a w)), [Store_query (build_query t qe a w)])"
  by (simp add: run_query_def Let_def)

lemma fallback_cascade_policy:
  assumes "\<forall>q. execute_error env q = None"
  shows "fallback_cascade env t qe a =
           (Inr (sql_select env (last (issued_until_rows env (fallback_attempts t qe a)))),
            map Store_query (issued_until_rows env (fallback_attempts t qe a)))"
  using assms
  by (simp add: fallback_cascade_def Let_def run_query_ok retry_if_empty_Inr fallback_attempts_def)

lemma store_queries_append: "store_queries (xs @ ys) = store_queries xs @ store_queries ys"
  by (simp add: store_queries_def)

lemma store_queries_map: "store_queries (map Store_query qs) = qs"
  by (induction qs) (simp_all add: store_queries_def)

text \<open>
  Claim C1. In a call of \<open>find_similar_issues\<close> that reaches the store (the connection opens,
  the text has a non-empty embedding, no statement raises), the queries sent are the
  attempts of the fallback policy in their order (weight \<open>alpha\<close> with the type filter;
  weight 0.5 with the same filter; with a type hint only, weight \<open>alpha\<close> without filter;
  weight 0.5 without filter), up to and including the first one that returns rows. The
  rows of that last query alone, cut at \<open>min_cutoff\<close> and trimmed to \<open>limit\<close>, are the result.
  In particular a primary query that returns a row is the only query sent.
\<close>

theorem fallback_order:
  assumes "db_connects env"
    and "generate_openai_embedding env issue_text = (Inr qe, evs)"
    and "qe \<noteq> []"
    and "\<forall>q. execute_error env q = None"
  shows "find_similar_issues env issue_text issue_type limit alpha min_cutoff =
           (py_slice_to limit
              (filter (\<lambda>r. min_cutoff \<le> similarity_score r)
                 (sql_select env
                    (last (issued_until_rows env (fallback_attempts issue_type qe alpha))))),
            evs @ map Store_query (issued_until_rows env (fallback_attempts issue_type qe alpha)))
         \<and> (sql_select env (build_query issue_type qe alpha True) \<noteq> [] \<longrightarrow>
              issued_until_rows env (fallback_attempts issue_type qe alpha)
                = [build_query issue_type qe alpha True])"
  using assms
  by (simp add: find_similar_issues_def search_with_embedding_def fallback_cascade_policy
        fallback_attempts_def)


lemmas search_defs =
  find_similar_issues_def search_with_embedding_def fallback_cascade_def retry_if_empty_def
  run_query_def build_query_def generate_openai_embedding_def sql_select_def sql_where_def
  sql_ilike_def sql_project_def sql_score_def py_truthy_def py_slice_to_def store_queries_def
  demo_env_def row_with_def py_lower_def py_lower_char_def Let_def

lemma demo_vec_not_zero [simp]: "[1, 2] \<noteq> replicate 1536 (0::real)" "[3, 4] \<noteq> replicate 1536 (0::real)"
  by (simp_all add: list_eq_iff_nth_eq)

theorem fallback_order_witness:
  "db_connects demo_env \<and>
   generate_openai_embedding demo_env ''leak'' = (Inr [1, 2], [Embedding_request ''leak'']) \<and>
   (\<forall>q. execute_error demo_env q = None) \<and>
   store_queries (snd (find_similar_issues demo_env ''leak'' (Some ''zz'') 5 0.7 0.65)) =
     [build_query (Some ''zz'') [1, 2] 0.7 True,
      build_query (Some ''zz'') [1, 2] 0.5 True,
      build_query (Some ''zz'') [1, 2] 0.7 False] \<and>
   map claimid (fst (find_similar_issues demo_env ''leak'' (Some ''zz'') 5 0.7 0.65)) = [''K1'', ''K2'']"
proof -
  have c: "db_connects demo_env" by (simp add: demo_env_def)
  have g: "generate_openai_embedding demo_env ''leak'' = (Inr [1, 2], [Embedding_request ''leak''])"
    by (simp add: generate_openai_embedding_def demo_env_def)
  have n: "[1, 2 :: real] \<noteq> []" by simp
  have x: "\<forall>q. execute_error demo_env q = None" by (simp add: demo_env_def)
  have i: "issued_until_rows demo_env (fallback_attempts (Some ''zz'') [1, 2] 0.7) =
     [build_query (Some ''zz'') [1, 2] 0.7 True,
      build_query (Some ''zz'') [1, 2] 0.5 True,
      build_query (Some ''zz'') [1, 2] 0.7 False]"
    by (simp add: fallback_attempts_def search_defs)
  have r: "map claimid (py_slice_to 5 (filter (\<lambda>r. 0.65 \<le> similarity_score r)
              (sql_select demo_env (build_query (Some ''zz'') [1, 2] 0.7 False)))) = [''K1'', ''K2'']"
    by (simp add: search_defs)
  from fallback_order [OF c g n x, of "Some ''zz''" 5 "0.7" "0.65"] c g x i r
  show ?thesis by (simp add: store_queries_append store_queries_map store_queries_def)
qed

text \<open>
  The claim C4 as stated bounds the length by \<open>limit\<close> for every call. With \<open>limit = -1\<close>
  and two rows above the cut-off the call returns one case.
\<close>

theorem negative_limit_counterexample:
  "map claimid (fst (find_similar_issues demo_env ''leak'' None (- 1) 0.7 0.65)) = [''K1''] \<and>
   \<not> int (length (fst (find_similar_issues demo_env ''leak'' None (- 1) 0.7 0.65))) \<le> - 1"
  by (simp add: search_defs)

theorem search_result_shape_witness:
  "(0::int) \<le> 1 \<and>
   int (length (fst (find_similar_issues demo_env ''leak'' None 1 0.7 0.65))) \<le> 1 \<and>
   map claimid (fst (find_similar_issues demo_env ''leak'' None 1 0.7 0.65)) = [''K1'']"
proof -
  have e: "map claimid (fst (find_similar_issues demo_env ''leak'' None 1 0.7 0.65)) = [''K1'']"
    by (simp add: search_defs)
  have l: "int (length (fst (find_similar_issues demo_env ''leak'' None 1 0.7 0.65))) \<le> 1"
    using search_result_shape [of 1 demo_env "''leak''" None "0.7" "0.65"] by simp
  from e l show ?thesis by simp
qed







section \<open>Properties of the agent\<close>

lemmas node_defs =
  symptom_analyzer_node_def embedding_generator_node_def similarity_searcher_node_def
  parts_recommender_node_def inventory_checker_node_def confidence_evaluator_node_def
  recommendation_formatter_node_def log_append_def Let_def

lemma quality_tiers:
  fixes ov :: real
  defines "label \<equiv> (if 0.8 < ov then ''high'' else if 0.6 < ov then ''medium'' else ''low'')"
  shows "label = ''high'' \<longleftrightarrow> 0.8 < ov"
    and "label = ''medium'' \<longleftrightarrow> 0.6 < ov \<and> ov \<le> 0.8"
    and "label = ''low'' \<longleftrightarrow> ov \<le> 0.6"
  by (auto simp: label_def)

lemma evaluator_scores:
  "confidence_scores (confidence_evaluator_node env state) =
     Some \<lparr> case_similarity = arithmetic_mean (map similarity_score (similar_cases state)),
            parts_confidence = arithmetic_mean (map fp_confidence (recommended_parts state)),
            overall_confidence =
              arithmetic_mean (map similarity_score (similar_cases state)) * 0.4 +
              arithmetic_mean (map fp_confidence (recommended_parts state)) * 0.6,
            quality =
              (if 0.8 < arithmetic_mean (map similarity_score (similar_cases state)) * 0.4 +
                        arithmetic_mean (map fp_confidence (recommended_parts state)) * 0.6
               then ''high''
               else if 0.6 < arithmetic_mean (map similarity_score (similar_cases state)) * 0.4 +
                             arithmetic_mean (map fp_confidence (recommended_parts state)) * 0.6
               then ''medium'' else ''low'') \<rparr>"
proof -
  have a: "(if similar_cases state \<noteq> []
            then sum_list (map similarity_score (similar_cases state))
                   / real (length (similar_cases state)) else 0)
           = arithmetic_mean (map similarity_score (similar_cases state))" (is "?A = _")
    by (simp add: arithmetic_mean_def)
  have p: "(if recommended_parts state \<noteq> []
            then sum_list (map fp_confidence (recommended_parts state))
                   / real (length (recommended_parts state)) else 0)
           = arithmetic_mean (map fp_confidence (recommended_parts state))" (is "?P = _")
    by (simp add: arithmetic_mean_def)
  have "confidence_scores (confidence_evaluator_node env state) =
     Some \<lparr> case_similarity = ?A, parts_confidence = ?P,
            overall_confidence = ?A * 0.4 + ?P * 0.6,
            quality = (if 0.8 < ?A * 0.4 + ?P * 0.6 then ''high''
                       else if 0.6 < ?A * 0.4 + ?P * 0.6 then ''medium'' else ''low'') \<rparr>"
    by (simp add: confidence_evaluator_node_def log_append_def Let_def
          split del: if_split cong: if_cong)
  then show ?thesis unfolding a p .
qed

text \<open>
  Claim C6. For every state, the confidence evaluator stores a score map whose
  \<open>case_similarity\<close> is the arithmetic mean of the similarity scores of the similar cases and
  whose \<open>parts_confidence\<close> is the arithmetic mean of the confidences of the recommended
  parts (each 0 for an empty list), whose \<open>overall_confidence\<close> is 0.4 times the first plus
  0.6 times the second, and whose \<open>quality\<close> is \<open>high\<close> exactly when the overall confidence
  is above 0.8, \<open>medium\<close> exactly when it is above 0.6 and at most 0.8, and \<open>low\<close> exactly
  when it is at most 0.6. So 0.8 itself gives \<open>medium\<close> and 0.6 itself gives \<open>low\<close>.
\<close>

theorem confidence_evaluation:
  "\<exists>cs. confidence_scores (confidence_evaluator_node env state) = Some cs \<and>
     case_similarity cs = arithmetic_mean (map similarity_score (similar_cases state)) \<and>
     parts_confidence cs = arithmetic_mean (map fp_confidence (recommended_parts state)) \<and>
     overall_confidence cs = 0.4 * case_similarity cs + 0.6 * parts_confidence cs \<and>
     (quality cs = ''high'' \<longleftrightarrow> 0.8 < overall_confidence cs) \<and>
     (quality cs = ''medium'' \<longleftrightarrow> 0.6 < overall_confidence cs \<and> overall_confidence cs \<le> 0.8) \<and>
     (quality cs = ''low'' \<longleftrightarrow> overall_confidence cs \<le> 0.6)"
proof -
  define a where "a = arithmetic_mean (map similarity_score (similar_cases state))"
  define p where "p = arithmetic_mean (map fp_confidence (recommended_parts state))"
  define ov where "ov = a * 0.4 + p * 0.6"
  define cs where
    "cs = \<lparr> case_similarity = a, parts_confidence = p, overall_confidence = ov,
            quality = (if 0.8 < ov then ''high'' else if 0.6 < ov then ''medium'' else ''low'') \<rparr>"
  have node: "confidence_scores (confidence_evaluator_node env state) = Some cs"
    unfolding cs_def ov_def a_def p_def by (rule evaluator_scores)
  have fields: "case_similarity cs = a" "parts_confidence cs = p" "overall_confidence cs = ov"
    "quality cs = (if 0.8 < ov then ''high'' else if 0.6 < ov then ''medium'' else ''low'')"
    by (simp_all add: cs_def)
  have ov: "ov = 0.4 * a + 0.6 * p"
    by (simp add: ov_def)
  note q = quality_tiers [of ov, folded fields(4)]
  show ?thesis
    apply (rule exI [of _ cs])
    unfolding fields(1-3)
    using node ov q unfolding a_def p_def by blast
qed

lemma run_all_nodes:
  "run_nodes (workflow_nodes env) state =
     recommendation_formatter_node env
       (confidence_evaluator_node env
          (inventory_checker_node
             (parts_recommender_node
                (similarity_searcher_node env
                   (embedding_generator_node env
                      (symptom_analyzer_node env state))))))"
  by (simp add: run_nodes_def workflow_nodes_def)

lemma formatter_fields:
  "workflow_stage (recommendation_formatter_node env s) = ''completed''"
  "error_message (recommendation_formatter_node env s) = error_message s"
  "similar_cases (recommendation_formatter_node env s) = similar_cases s"
  "embedding_vector (recommendation_formatter_node env s) = embedding_vector s"
  "processing_log (recommendation_formatter_node env s) =
     processing_log s @ [''Formatting final recommendations...'', ''Workflow completed successfully'']"
  by (simp_all add: recommendation_formatter_node_def log_append_def Let_def)

lemma evaluator_fields:
  "error_message (confidence_evaluator_node env s) = error_message s"
  "similar_cases (confidence_evaluator_node env s) = similar_cases s"
  "embedding_vector (confidence_evaluator_node env s) = embedding_vector s"
  "length (processing_log (confidence_evaluator_node env s)) = length (processing_log s) + 2"
  by (simp_all add: confidence_evaluator_node_def log_append_def Let_def)

lemma inventory_fields:
  "error_message (inventory_checker_node s) = error_message s"
  "similar_cases (inventory_checker_node s) = similar_cases s"
  "embedding_vector (inventory_checker_node s) = embedding_vector s"
  "length (processing_log (inventory_checker_node s)) = length (processing_log s) + 2"
  by (simp_all add: inventory_checker_node_def log_append_def Let_def)

lemma recommender_fields:
  "error_message (parts_recommender_node s) = error_message s"
  "similar_cases (parts_recommender_node s) = similar_cases s"
  "embedding_vector (parts_recommender_node s) = embedding_vector s"
  "length (processing_log (parts_recommender_node s)) =
     length (processing_log s) + (if similar_cases s = [] then 1 else 2)"
  by (simp_all add: parts_recommender_node_def log_append_def Let_def)

lemma searcher_failure:
  assumes "search_error env = Some e"
  shows "error_message (similarity_searcher_node env s) = Some (''Similarity search failed: '' @ e)"
    and "similar_cases (similarity_searcher_node env s) = []"
  using assms
  by (simp_all add: similarity_searcher_node_def call_find_similar_issues_def log_append_def Let_def)

lemma searcher_success:
  assumes "search_error env = None"
  shows "error_message (similarity_searcher_node env s) = error_message s"
    and "embedding_vector (similarity_searcher_node env s) = embedding_vector s"
    and "length (processing_log (similarity_searcher_node env s)) =
           length (processing_log s) + 2 +
           (if embedding_vector s = None \<or> embedding_vector s = Some [] then 1 else 0)"
  using assms
  by (auto simp: similarity_searcher_node_def call_find_similar_issues_def log_append_def Let_def
        split: option.splits)

lemma generator_failure:
  assumes "embeddings_create env (py_join '' '' (processed_symptoms s)) = Inl e"
  shows "error_message (embedding_generator_node env s) = Some (''Embedding generation failed: '' @ e)"
    and "embedding_vector (embedding_generator_node env s) = None"
  using assms by (simp_all add: embedding_generator_node_def log_append_def Let_def)

lemma generator_success:
  assumes "embeddings_create env (py_join '' '' (processed_symptoms s)) = Inr vec"
  shows "error_message (embedding_generator_node env s) = error_message s"
    and "embedding_vector (embedding_generator_node env s) = Some vec"
    and "length (processing_log (embedding_generator_node env s)) = length (processing_log s) + 2"
  using assms by (simp_all add: embedding_generator_node_def log_append_def Let_def)

lemma analyzer_failure:
  assumes "suggest_technical_symptoms env (user_issue s)
             (case machine_series s of Some m \<Rightarrow> m | None \<Rightarrow> []) = Inl e"
  shows "error_message (symptom_analyzer_node env s) = Some (''Symptom analysis failed: '' @ e)"
    and "processed_symptoms (symptom_analyzer_node env s) = [user_issue s]"
  using assms by (simp_all add: symptom_analyzer_node_def log_append_def Let_def)

lemma analyzer_success:
  assumes "suggest_technical_symptoms env (user_issue s)
             (case machine_series s of Some m \<Rightarrow> m | None \<Rightarrow> []) = Inr ts"
  shows "error_message (symptom_analyzer_node env s) = error_message s"
    and "length (processing_log (symptom_analyzer_node env s)) = length (processing_log s) + 2"
  using assms by (simp_all add: symptom_analyzer_node_def log_append_def Let_def)



lemma boundary_means:
  "arithmetic_mean (map similarity_score (similar_cases (boundary_state x))) = x"
  "arithmetic_mean (map fp_confidence (recommended_parts (boundary_state x))) = x"
  by (simp_all add: boundary_state_def arithmetic_mean_def case_with_def)

theorem confidence_evaluation_witness:
  "map_option quality (confidence_scores (confidence_evaluator_node demo_env (boundary_state 0.8)))
     = Some ''medium'' \<and>
   map_option overall_confidence
     (confidence_scores (confidence_evaluator_node demo_env (boundary_state 0.8))) = Some 0.8 \<and>
   map_option quality (confidence_scores (confidence_evaluator_node demo_env (boundary_state 0.6)))
     = Some ''low'' \<and>
   map_option overall_confidence
     (confidence_scores (confidence_evaluator_node demo_env (boundary_state 0.6))) = Some 0.6"
proof -
  from confidence_evaluation [of demo_env "boundary_state 0.8"] obtain cs where
    cs: "confidence_scores (confidence_evaluator_node demo_env (boundary_state 0.8)) = Some cs"
      "overall_confidence cs = 0.4 * case_similarity cs + 0.6 * parts_confidence cs"
      "case_similarity cs = 0.8" "parts_confidence cs = 0.8"
      "quality cs = ''medium'' \<longleftrightarrow> 0.6 < overall_confidence cs \<and> overall_confidence cs \<le> 0.8"
    unfolding boundary_means by blast
  from confidence_evaluation [of demo_env "boundary_state 0.6"] obtain cs' where
    cs': "confidence_scores (confidence_evaluator_node demo_env (boundary_state 0.6)) = Some cs'"
      "overall_confidence cs' = 0.4 * case_similarity cs' + 0.6 * parts_confidence cs'"
      "case_similarity cs' = 0.6" "parts_confidence cs' = 0.6"
      "quality cs' = ''low'' \<longleftrightarrow> overall_confidence cs' \<le> 0.6"
    unfolding boundary_means by blast
  have "overall_confidence cs = 0.8" using cs(2-4) by simp
  moreover have "overall_confidence cs' = 0.6" using cs'(2-4) by simp
  ultimately show ?thesis using cs(1,5) cs'(1,5) by simp
qed


text \<open>
  Claim C9, as the code has it. Every stage appends a line when it starts and a line when it
  is done. On a run in which no stage failed (the final state carries no error message) the
  log has 14 entries when a similar case was found and the embedding is not empty; it has
  one entry fewer when no similar case was found (the parts stage then returns after its
  first line), and one more when the embedding model returned an empty vector (the search
  stage then logs its text-search fallback).
\<close>

theorem successful_run_log_length:
  assumes run: "workflow_invoke env (initial_state issue series uid tid) = Inr final_state"
    and ok: "error_message final_state = None"
  shows "length (processing_log final_state) =
           13 + (if similar_cases final_state = [] then 0 else 1)
              + (if embedding_vector final_state = Some [] then 1 else 0)"
proof -
  let ?s0 = "initial_state issue series uid tid"
  let ?s1 = "symptom_analyzer_node env ?s0"
  let ?s2 = "embedding_generator_node env ?s1"
  let ?s3 = "similarity_searcher_node env ?s2"
  let ?s4 = "parts_recommender_node ?s3"
  let ?s5 = "inventory_checker_node ?s4"
  let ?s6 = "confidence_evaluator_node env ?s5"
  let ?s7 = "recommendation_formatter_node env ?s6"
  from run have fs: "final_state = ?s7"
    by (auto simp: workflow_invoke_def run_all_nodes split: option.splits)
  from ok have e3: "error_message ?s3 = None"
    by (simp add: fs formatter_fields evaluator_fields inventory_fields recommender_fields)
  have se: "search_error env = None"
  proof (cases "search_error env")
    case (Some e)
    from searcher_failure(1) [OF Some, of ?s2] e3 show ?thesis by simp
  qed simp
  from e3 have e2: "error_message ?s2 = None"
    by (simp add: searcher_success(1) [OF se])
  obtain vec where emb: "embeddings_create env (py_join '' '' (processed_symptoms ?s1)) = Inr vec"
  proof (cases "embeddings_create env (py_join '' '' (processed_symptoms ?s1))")
    case (Inl e)
    from generator_failure(1) [OF Inl] e2 show ?thesis by simp
  next
    case (Inr vec)
    then show ?thesis by (rule that)
  qed
  from e2 have e1: "error_message ?s1 = None"
    by (simp add: generator_success(1) [OF emb])
  obtain ts where sug: "suggest_technical_symptoms env (user_issue ?s0)
             (case machine_series ?s0 of Some m \<Rightarrow> m | None \<Rightarrow> []) = Inr ts"
  proof (cases "suggest_technical_symptoms env (user_issue ?s0)
             (case machine_series ?s0 of Some m \<Rightarrow> m | None \<Rightarrow> [])")
    case (Inl e)
    from analyzer_failure(1) [OF Inl] e1 show ?thesis by simp
  next
    case (Inr ts)
    then show ?thesis by (rule that)
  qed
  have l0: "length (processing_log ?s0) = 0"
    by (simp add: initial_state_def)
  have l1: "length (processing_log ?s1) = 2"
    by (simp add: analyzer_success(2) [OF sug] l0)
  have l2: "length (processing_log ?s2) = 4"
    by (simp add: generator_success(3) [OF emb] l1)
  have v2: "embedding_vector ?s2 = Some vec"
    by (rule generator_success(2) [OF emb])
  have l3: "length (processing_log ?s3) = 6 + (if vec = [] then 1 else 0)"
    by (simp add: searcher_success(3) [OF se] l2 v2)
  have l7: "length (processing_log ?s7) =
      length (processing_log ?s3) + (if similar_cases ?s3 = [] then 1 else 2) + 6"
    by (simp add: formatter_fields evaluator_fields inventory_fields recommender_fields)
  have c7: "similar_cases ?s7 = similar_cases ?s3"
    by (simp add: formatter_fields evaluator_fields inventory_fields recommender_fields)
  have v7: "embedding_vector ?s7 = Some vec"
    by (simp add: formatter_fields evaluator_fields inventory_fields recommender_fields
          searcher_success(2) [OF se] v2)
  show ?thesis
    unfolding fs by (simp add: l7 l3 c7 v7)
qed


lemma demo_searched_fields:
  "processing_log demo_searched =
     [''Starting symptom analysis: leak...'',
      ''Generated 1 processed symptoms'',
      ''Generating embeddings for symptom matching...'',
      ''Generated 2-dimensional embedding vector'',
      ''Searching for similar cases using vector similarity...'',
      ''Found 2 similar cases'']"
  "error_message demo_searched = None"
  "embedding_vector demo_searched = Some [1, 2]"
  "map partname (similar_cases demo_searched) =
     [Some ''7J065-85200, 9L200-54321'', Some ''9L200-54321'']"
  by (simp_all add: demo_searched_def demo_issue_def symptom_analyzer_node_def
        embedding_generator_node_def similarity_searcher_node_def log_append_def
        call_find_similar_issues_def initial_state_def symptom_text_def str_nat.simps
        digit_char_def search_defs)

lemma recommender_log:
  "processing_log (parts_recommender_node s) =
     processing_log s @
     ''Extracting parts recommendations from similar cases...'' #
     (if similar_cases s = [] then []
      else [''Recommended '' @ str_nat (length (extract_recommended_parts (similar_cases s)))
              @ '' parts''])"
  "length (recommended_parts (parts_recommender_node s)) =
     (if similar_cases s = [] then 0 else length (extract_recommended_parts (similar_cases s)))"
  by (simp_all add: parts_recommender_node_def log_append_def Let_def)

lemma inventory_log:
  "processing_log (inventory_checker_node s) =
     processing_log s @
     [''Checking inventory availability...'',
      ''Checked inventory for '' @ str_nat (length (recommended_parts s)) @ '' parts'']"
  by (simp add: inventory_checker_node_def log_append_def Let_def)

lemma evaluator_log:
  "\<exists>x. processing_log (confidence_evaluator_node env s) =
     processing_log s @
     [''Evaluating recommendation confidence...'', ''Overall confidence: '' @ format_2f env x]"
  unfolding confidence_evaluator_node_def log_append_def Let_def
  by (rule exI) (simp split del: if_split cong: if_cong)

lemma extract_length_cong:
  "length (extract_recommended_parts cases) =
     length (take 10 (count_cases [] cases))"
  by (simp add: extract_recommended_parts_def sorted_by_frequency_desc_def Let_def)

lemma count_cases_partname:
  "map partname cs = map partname cs' \<Longrightarrow> count_cases d cs = count_cases d cs'"
proof (induction cs arbitrary: cs' d)
  case Nil
  then show ?case by simp
next
  case (Cons c cs)
  then obtain c' cs'' where "cs' = c' # cs''" by auto
  with Cons show ?case by simp
qed

lemma demo_recommended: "length (extract_recommended_parts (similar_cases demo_searched)) = 2"
proof -
  have "map partname (similar_cases demo_searched) =
        map partname [case_with ''K1'' (Some ''7J065-85200, 9L200-54321'') 1,
                      case_with ''K2'' (Some ''9L200-54321'') 1]"
    by (simp add: demo_searched_fields case_with_def)
  then have "count_cases [] (similar_cases demo_searched) =
        count_cases [] [case_with ''K1'' (Some ''7J065-85200, 9L200-54321'') 1,
                      case_with ''K2'' (Some ''9L200-54321'') 1]"
    by (rule count_cases_partname)
  then show ?thesis
    by (simp add: extract_length_cong eval_defs)
qed

lemma demo_run_log:
  "processing_log (run_nodes (workflow_nodes demo_env) demo_issue) =
     [''Starting symptom analysis: leak...'',
      ''Generated 1 processed symptoms'',
      ''Generating embeddings for symptom matching...'',
      ''Generated 2-dimensional embedding vector'',
      ''Searching for similar cases using vector similarity...'',
      ''Found 2 similar cases'',
      ''Extracting parts recommendations from similar cases...'',
      ''Recommended 2 parts'',
      ''Checking inventory availability...'',
      ''Checked inventory for 2 parts'',
      ''Evaluating recommendation confidence...'',
      ''Overall confidence: ?'',
      ''Formatting final recommendations...'',
      ''Workflow completed successfully'']"
proof -
  have ne: "similar_cases demo_searched \<noteq> []"
    using demo_searched_fields(4) by auto
  have f: "format_2f demo_env x = ''?''" for x
    by (simp add: demo_env_def)
  obtain x where "processing_log
        (confidence_evaluator_node demo_env
           (inventory_checker_node (parts_recommender_node demo_searched))) =
      processing_log (inventory_checker_node (parts_recommender_node demo_searched)) @
      [''Evaluating recommendation confidence...'', ''Overall confidence: '' @ format_2f demo_env x]"
    using evaluator_log by blast
  then show ?thesis
    by (simp add: run_all_nodes formatter_fields inventory_log recommender_log
          demo_searched_def [symmetric] demo_searched_fields ne demo_recommended f
          str_nat.simps digit_char_def)
qed

lemma demo_run_fields:
  "error_message (run_nodes (workflow_nodes demo_env) demo_issue) = None"
  "embedding_vector (run_nodes (workflow_nodes demo_env) demo_issue) = Some [1, 2]"
  "similar_cases (run_nodes (workflow_nodes demo_env) demo_issue) \<noteq> []"
proof -
  have ne: "similar_cases demo_searched \<noteq> []"
    using demo_searched_fields(4) by auto
  show "error_message (run_nodes (workflow_nodes demo_env) demo_issue) = None"
    "embedding_vector (run_nodes (workflow_nodes demo_env) demo_issue) = Some [1, 2]"
    "similar_cases (run_nodes (workflow_nodes demo_env) demo_issue) \<noteq> []"
    by (simp_all add: run_all_nodes formatter_fields evaluator_fields inventory_fields
          recommender_fields demo_searched_def [symmetric] demo_searched_fields ne)
qed

lemma response_fields:
  "success (process_issue env i s u t) =
     (case workflow_invoke env (initial_state i s u t) of Inr fs \<Rightarrow> True | Inl e \<Rightarrow> False)"
  "r_processing_log (process_issue env i s u t) =
     (case workflow_invoke env (initial_state i s u t) of
        Inr fs \<Rightarrow> Some (processing_log fs) | Inl e \<Rightarrow> None)"
  "r_error_message (process_issue env i s u t) =
     (case workflow_invoke env (initial_state i s u t) of
        Inr fs \<Rightarrow> error_message fs | Inl e \<Rightarrow> None)"
  "r_final_recommendations (process_issue env i s u t) =
     (case workflow_invoke env (initial_state i s u t) of
        Inr fs \<Rightarrow> final_recommendations fs | Inl e \<Rightarrow> [])"
  "r_explanation (process_issue env i s u t) =
     (case workflow_invoke env (initial_state i s u t) of
        Inr fs \<Rightarrow> explanation fs | Inl e \<Rightarrow> ''Workflow failed: '' @ e)"
  by (simp_all add: process_issue_def split: sum.splits)

lemma demo_invoke:
  "workflow_invoke demo_env (initial_state ''leak'' None None None) =
     Inr (run_nodes (workflow_nodes demo_env) demo_issue)"
  by (simp add: workflow_invoke_def demo_env_def demo_issue_def)

text \<open>
  The claim C9 as stated gives a successful run a log of exactly 7 entries. A run on
  \<open>demo_env\<close> in which no stage fails logs 14.
\<close>

theorem log_length_counterexample:
  "r_processing_log (process_issue demo_env ''leak'' None None None) =
     Some [''Starting symptom analysis: leak...'',
           ''Generated 1 processed symptoms'',
           ''Generating embeddings for symptom matching...'',
           ''Generated 2-dimensional embedding vector'',
           ''Searching for similar cases using vector similarity...'',
           ''Found 2 similar cases'',
           ''Extracting parts recommendations from similar cases...'',
           ''Recommended 2 parts'',
           ''Checking inventory availability...'',
           ''Checked inventory for 2 parts'',
           ''Evaluating recommendation confidence...'',
           ''Overall confidence: ?'',
           ''Formatting final recommendations...'',
           ''Workflow completed successfully''] \<and>
   r_error_message (process_issue demo_env ''leak'' None None None) = None \<and>
   map_option length (r_processing_log (process_issue demo_env ''leak'' None None None)) \<noteq> Some 7"
  by (simp add: response_fields demo_invoke demo_run_log demo_run_fields)

theorem successful_run_log_length_witness:
  "workflow_invoke demo_env (initial_state ''leak'' None None None) =
     Inr (run_nodes (workflow_nodes demo_env) demo_issue) \<and>
   error_message (run_nodes (workflow_nodes demo_env) demo_issue) = None \<and>
   length (processing_log (run_nodes (workflow_nodes demo_env) demo_issue)) = 14"
proof -
  from successful_run_log_length [OF demo_invoke demo_run_fields(1)]
  have "length (processing_log (run_nodes (workflow_nodes demo_env) demo_issue)) = 14"
    by (simp add: demo_run_fields)
  with demo_invoke demo_run_fields(1) show ?thesis by simp
qed

text \<open>
  Claim C10. \<open>process_issue\<close> answers with \<open>success = True\<close> exactly when the workflow
  yields a final state, and then hands on that state's error message, be it null or the
  message of a failed stage. It answers with \<open>success = False\<close> only when the graph library
  raises; the recommendations are then the empty list and the explanation starts with
  \<open>Workflow failed:\<close>.
\<close>

theorem process_issue_success_flag:
  "(success (process_issue env issue series uid tid) \<longleftrightarrow>
      (\<exists>final_state. workflow_invoke env (initial_state issue series uid tid) = Inr final_state)) \<and>
   (\<forall>final_state. workflow_invoke env (initial_state issue series uid tid) = Inr final_state \<longrightarrow>
      success (process_issue env issue series uid tid) \<and>
      r_error_message (process_issue env issue series uid tid) = error_message final_state \<and>
      r_final_recommendations (process_issue env issue series uid tid)
        = final_recommendations final_state) \<and>
   (\<not> success (process_issue env issue series uid tid) \<longrightarrow>
      (\<exists>e. graph_error env = Some e \<and>
           workflow_invoke env (initial_state issue series uid tid) = Inl e \<and>
           r_explanation (process_issue env issue series uid tid) = ''Workflow failed: '' @ e) \<and>
      r_final_recommendations (process_issue env issue series uid tid) = [] \<and>
      take 16 (r_explanation (process_issue env issue series uid tid)) = ''Workflow failed:'')"
proof (cases "graph_error env")
  case None
  then show ?thesis
    by (simp add: response_fields workflow_invoke_def)
next
  case (Some e)
  then show ?thesis
    by (simp add: response_fields workflow_invoke_def)
qed

theorem process_issue_success_flag_witness:
  "workflow_invoke failing_env (initial_state ''leak'' None None None) =
     Inr (run_nodes (workflow_nodes failing_env) (initial_state ''leak'' None None None)) \<and>
   success (process_issue failing_env ''leak'' None None None) \<and>
   r_error_message (process_issue failing_env ''leak'' None None None) =
     Some ''Similarity search failed: connection already closed'' \<and>
   \<not> success (process_issue broken_graph_env ''leak'' None None None) \<and>
   r_final_recommendations (process_issue broken_graph_env ''leak'' None None None) = [] \<and>
   take 16 (r_explanation (process_issue broken_graph_env ''leak'' None None None))
     = ''Workflow failed:''"
proof -
  let ?s = "initial_state ''leak'' None None None"
  have inv: "workflow_invoke failing_env ?s = Inr (run_nodes (workflow_nodes failing_env) ?s)"
    by (simp add: workflow_invoke_def failing_env_def demo_env_def)
  have se: "search_error failing_env = Some ''connection already closed''"
    by (simp add: failing_env_def)
  have em: "error_message (run_nodes (workflow_nodes failing_env) ?s) =
      Some ''Similarity search failed: connection already closed''"
    by (simp add: run_all_nodes formatter_fields evaluator_fields inventory_fields
          recommender_fields searcher_failure(1) [OF se])
  note t1 = process_issue_success_flag [of failing_env "''leak''" None None None]
  note ok = t1 [THEN conjunct2, THEN conjunct1, THEN spec, THEN mp, OF inv]
  have bad: "\<not> success (process_issue broken_graph_env ''leak'' None None None)"
    by (simp add: response_fields workflow_invoke_def broken_graph_env_def)
  note t2 = process_issue_success_flag [of broken_graph_env "''leak''" None None None]
  note ko = t2 [THEN conjunct2, THEN conjunct2, THEN mp, OF bad]
  from inv ok em ko bad show ?thesis by simp
qed


end
